theory Spec2Isabelle
  imports Complex_Main "HOL-Library.Word" "HOL-Library.Sublist"
begin

section \<open>JavaScript strings\<close>

text \<open>
  A JavaScript string is a sequence of UTF-16 code units: \<open>length\<close>, \<open>substring\<close>, a
  regular expression without the \<open>u\<close> flag and \<open>!==\<close> all work on code units. The
  literals of \<open>server.js\<close> are ASCII apart from a few symbols, which are written by
  their code units.
\<close>

type_synonym jschar = "16 word"
type_synonym jsstring = "jschar list"

definition u :: "char \<Rightarrow> jschar" where
  "u c = of_char c"

definition js :: "string \<Rightarrow> jsstring" where
  "js s = map u s"

text \<open>\<open>s.substring(0, n)\<close> for a whole number \<open>n \<ge> 0\<close>.\<close>

definition substring0 :: "jsstring \<Rightarrow> nat \<Rightarrow> jsstring" where
  "substring0 s n = take n s"

text \<open>
  \<open>String(n)\<close>, as a template literal converts a number, for an integer of magnitude
  below \<open>10^21\<close> (larger numbers print with an exponent; the program never has one):
  the decimal digits, most significant first, after a minus sign when negative.
\<close>

definition digit :: "nat \<Rightarrow> jschar" where
  "digit d = of_nat (48 + d)"

fun digits :: "nat \<Rightarrow> jsstring" where
  "digits n = (if n < 10 then [digit n] else digits (n div 10) @ [digit (n mod 10)])"

declare digits.simps [simp del]

definition Number_toString :: "int \<Rightarrow> jsstring" where
  "Number_toString n = (if n < 0 then u CHR ''-'' # digits (nat (- n)) else digits (nat n))"

section \<open>Configuration and constants\<close>

definition MAX_FILE_SIZE_MB :: int where
  "MAX_FILE_SIZE_MB = 50"

definition RETRY_ATTEMPTS :: nat where
  "RETRY_ATTEMPTS = 3"

definition RETRY_DELAY_MS :: nat where
  "RETRY_DELAY_MS = 1000"

definition SUPPORTED_MEDIA_TYPES :: "jsstring list" where
  "SUPPORTED_MEDIA_TYPES =
     [js ''image'', js ''video'', js ''audio'', js ''document'', js ''sticker'']"

section \<open>Utility functions\<close>

text \<open>The character class \<open>[a-zA-Z0-9._-]\<close> whose complement the regular expression replaces.\<close>

definition safeChar :: "jschar \<Rightarrow> bool" where
  "safeChar c \<longleftrightarrow>
     (u CHR ''a'' \<le> c \<and> c \<le> u CHR ''z'') \<or>
     (u CHR ''A'' \<le> c \<and> c \<le> u CHR ''Z'') \<or>
     (u CHR ''0'' \<le> c \<and> c \<le> u CHR ''9'') \<or>
     c = u CHR ''.'' \<or> c = u CHR ''_'' \<or> c = u CHR ''-''"

text \<open>\<open>filename.replace(/[^a-zA-Z0-9._-]/g, '_')\<close>: every code unit outside the class becomes \<open>_\<close>.\<close>

definition replaceUnsafe :: "jsstring \<Rightarrow> jsstring" where
  "replaceUnsafe s = map (\<lambda>c. if safeChar c then c else u CHR ''_'') s"

text \<open>
  \<open>sanitizeFileName(filename)\<close>. The file name is a string, \<open>undefined\<close> or \<open>null\<close>
  (\<open>None\<close>); \<open>!filename\<close> holds for \<open>None\<close> and for the empty string. \<open>now\<close> is the
  reading of \<open>Date.now()\<close>, whole milliseconds since the epoch.
\<close>

definition sanitizeFileName :: "nat \<Rightarrow> jsstring option \<Rightarrow> jsstring" where
  "sanitizeFileName now filename =
     (case filename of
        None \<Rightarrow> js ''media_'' @ Number_toString (int now) @ js ''.bin''
      | Some name \<Rightarrow>
          if name = [] then js ''media_'' @ Number_toString (int now) @ js ''.bin''
          else substring0 (replaceUnsafe name) 64)"

definition getTelegramSendMethod :: "jsstring \<Rightarrow> jsstring" where
  "getTelegramSendMethod type =
     (if type = js ''image'' then js ''sendPhoto''
      else if type = js ''video'' then js ''sendVideo''
      else if type = js ''audio'' then js ''sendAudio''
      else js ''sendDocument'')"

text \<open>
  \<open>Math.round(x)\<close>: the integer nearest to \<open>x\<close>, a tie going up.
\<close>

definition Math_round :: "real \<Rightarrow> int" where
  "Math_round x = \<lfloor>x + 1 / 2\<rfloor>"

text \<open>
  \<open>estimateFileSize(base64Data)\<close>. The numbers are doubles; the product is a whole
  number and the divisors are powers of two, so every intermediate value is represented
  exactly as long as three times the length stays below \<open>2^53\<close>, which holds for every
  string an engine can build (V8 limits a string to fewer than \<open>2^30\<close> code units). The
  arithmetic is therefore that of the reals.
\<close>

definition estimateFileSize :: "jsstring \<Rightarrow> int" where
  "estimateFileSize base64Data =
     (let base64Length = length base64Data
      in Math_round (real base64Length * 3 / 4 / 1024 / 1024))"

text \<open>
  \<open>generateCaption(from, timestamp)\<close>. The formatting of the date in the \<open>en-US\<close>
  locale belongs to the runtime: \<open>toLocaleString\<close> stands for
  \<open>ms \<mapsto> new Date(ms).toLocaleString('en-US')\<close>.
\<close>

definition generateCaption :: "(int \<Rightarrow> jsstring) \<Rightarrow> jsstring \<Rightarrow> int \<Rightarrow> jsstring" where
  "generateCaption toLocaleString sender timestamp =
     (let date = toLocaleString (timestamp * 1000)
      in substring0
           (js ''Media from WhatsApp:'' @ [0x0A] @ js ''From: '' @ sender @ [0x0A] @ js ''Time: '' @ date)
           200)"

section \<open>Effects\<close>

text \<open>
  What a run does to the outside is recorded as a list of events, oldest first. An
  asynchronous operation is a function of the state of the outside world: it returns what
  the awaited promise settles to (\<open>Inl\<close> a rejection, \<open>Inr\<close> the value), the world after
  it, and the events it caused.
\<close>

record error =
  message :: jsstring
  stack :: jsstring

datatype buffer = Buffer_from_base64 jsstring

datatype event =
    ConsoleLog jsstring
  | ConsoleWarn jsstring
  | ConsoleError jsstring
  | ConsoleErrorWith jsstring jsstring jsstring jsstring
      \<comment> \<open>the text, then the fields \<open>type\<close>, \<open>from\<close> and \<open>errorStack\<close> of the object logged with it\<close>
  | SetTimeout nat
      \<comment> \<open>an awaited timer of so many milliseconds\<close>
  | DownloadMedia
      \<comment> \<open>\<open>msg.downloadMedia()\<close>\<close>
  | Reply jsstring
      \<comment> \<open>\<open>msg.reply(text)\<close>\<close>
  | TelegramSend jsstring jsstring buffer jsstring jsstring jsstring
      \<comment> \<open>\<open>telegramBot[method](chatId, buffer, {caption, contentType, filename})\<close>\<close>

type_synonym ('w, 'a) operation = "'w \<Rightarrow> (error + 'a) \<times> 'w \<times> event list"

section \<open>Retry wrapper\<close>

definition retryWarning :: "nat \<Rightarrow> nat \<Rightarrow> error \<Rightarrow> jsstring" where
  "retryWarning i attempts e =
     [0x26A0, 0xFE0F] @ js '' Retry '' @ Number_toString (int (i + 1)) @ js ''/'' @
     Number_toString (int attempts) @ js '' due to error: '' @ message e"

text \<open>
  The \<open>for\<close> loop of \<open>withRetry\<close>, entered with the counter at \<open>i\<close>. \<open>attempts\<close> is a
  whole number, as everywhere in the program (the one caller leaves it at its default).
  The result is \<open>Inl e\<close> when \<open>e\<close> is thrown, \<open>Inr (Some v)\<close> when \<open>v\<close> is returned and
  \<open>Inr None\<close> when the loop ends without a return.
\<close>

function withRetry_loop ::
  "('w, 'a) operation \<Rightarrow> nat \<Rightarrow> nat \<Rightarrow> 'w \<Rightarrow> (error + 'a option) \<times> 'w \<times> event list" where
  "withRetry_loop operation attempts i w =
     (if i < attempts then
        (case operation w of
           (Inr v, w', t) \<Rightarrow> (Inr (Some v), w', t)
         | (Inl e, w', t) \<Rightarrow>
             if i = attempts - 1 then (Inl e, w', t)
             else
               (case withRetry_loop operation attempts (i + 1) w' of
                  (r, w'', t') \<Rightarrow>
                    (r, w'', t @ [ConsoleWarn (retryWarning i attempts e), SetTimeout RETRY_DELAY_MS] @ t')))
      else (Inr None, w, []))"
  by pat_completeness auto
termination
  by (relation "measure (\<lambda>(operation, attempts, i, w). attempts - i)") auto

declare withRetry_loop.simps [simp del]

definition withRetry ::
  "('w, 'a) operation \<Rightarrow> nat \<Rightarrow> 'w \<Rightarrow> (error + 'a option) \<times> 'w \<times> event list" where
  "withRetry operation attempts w = withRetry_loop operation attempts 0 w"

section \<open>The message handler\<close>

text \<open>
  The configuration read at startup. \<open>TELEGRAM_USER_ID\<close> is present (the process exits
  otherwise); \<open>WHATSAPP_PHONE\<close> falls back to the placeholder when the variable is unset
  or empty.
\<close>

record config =
  TELEGRAM_USER_ID :: jsstring
  env_WHATSAPP_PHONE :: "jsstring option"

definition WHATSAPP_PHONE :: "config \<Rightarrow> jsstring" where
  "WHATSAPP_PHONE cfg =
     (case env_WHATSAPP_PHONE cfg of
        None \<Rightarrow> js ''+98XXXXXXXXXX''
      | Some p \<Rightarrow> if p = [] then js ''+98XXXXXXXXXX'' else p)"

text \<open>\<open>s.replace('+', '')\<close>: a string pattern replaces its first occurrence only.\<close>

definition replacePlus :: "jsstring \<Rightarrow> jsstring" where
  "replacePlus s = remove1 (u CHR ''+'') s"

record media =
  data :: jsstring
  mimetype :: jsstring
  filename :: "jsstring option"

text \<open>
  The inbound message: the fields the handler reads (\<open>from\<close>, \<open>type\<close>, \<open>t\<close>) and what
  \<open>msg.downloadMedia()\<close> does: it rejects, or resolves to the media or to \<open>undefined\<close>.
  \<open>hasMedia\<close> is the flag of the specification's inbound event; \<open>server.js\<close> never
  reads it, and it is here only so that a message can be said to carry no media.
\<close>

record 'w whatsapp_message =
  msg_from :: jsstring
  msg_type :: jsstring
  msg_t :: int
  hasMedia :: bool
  downloadMedia :: "'w \<Rightarrow> (error + media option) \<times> 'w"

text \<open>
  The runtime and the Telegram client: the send methods of the bot (selected by name),
  each resolving or rejecting; the date formatting; the clock.
\<close>

record 'w runtime =
  telegramBot :: "jsstring \<Rightarrow> jsstring \<Rightarrow> buffer \<Rightarrow> jsstring \<Rightarrow> jsstring \<Rightarrow> jsstring \<Rightarrow> 'w \<Rightarrow> (error + unit) \<times> 'w"
  toLocaleString :: "int \<Rightarrow> jsstring"
  Date_now :: "'w \<Rightarrow> nat"

definition telegramCall ::
  "'w runtime \<Rightarrow> jsstring \<Rightarrow> jsstring \<Rightarrow> jsstring \<Rightarrow> jsstring \<Rightarrow> jsstring \<Rightarrow> jsstring \<Rightarrow> ('w, unit) operation" where
  "telegramCall rt sendMethod chatId mediaBuffer caption mimeType fileName w =
     (case telegramBot rt sendMethod chatId (Buffer_from_base64 mediaBuffer)
             (substring0 caption 200) mimeType fileName w of
        (r, w') \<Rightarrow>
          (r, w', [TelegramSend sendMethod chatId (Buffer_from_base64 mediaBuffer)
                     (substring0 caption 200) mimeType fileName]))"

definition sendMediaToTelegram ::
  "config \<Rightarrow> 'w runtime \<Rightarrow> jsstring \<Rightarrow> jsstring \<Rightarrow> jsstring \<Rightarrow> jsstring \<Rightarrow> jsstring \<Rightarrow> ('w, unit) operation" where
  "sendMediaToTelegram cfg rt mediaBuffer mimeType fileName caption mediaType w =
     (let sendMethod = getTelegramSendMethod mediaType;
          sending = ConsoleLog
            ([0xD83D, 0xDCE4] @ js '' Sending '' @ mediaType @ js '' to Telegram (filename: '' @
             fileName @ js '', size: '' @ Number_toString (estimateFileSize mediaBuffer) @ js ''MB)'')
      in case withRetry
                (telegramCall rt sendMethod (TELEGRAM_USER_ID cfg) mediaBuffer caption mimeType fileName)
                RETRY_ATTEMPTS w of
           (Inl e, w', t) \<Rightarrow> (Inl e, w', sending # t)
         | (Inr _, w', t) \<Rightarrow>
             (Inr (), w', sending # t @
                [ConsoleLog ([0x2705] @ js '' Media sent to Telegram successfully'')]))"

text \<open>The body of the \<open>try\<close> block: \<open>Inl e\<close> when it throws \<open>e\<close>.\<close>

definition processMedia ::
  "config \<Rightarrow> 'w runtime \<Rightarrow> 'w whatsapp_message \<Rightarrow> ('w, unit) operation" where
  "processMedia cfg rt msg w =
     (case downloadMedia msg w of
        (Inl e, w1) \<Rightarrow> (Inl e, w1, [DownloadMedia])
      | (Inr None, w1) \<Rightarrow>
          (Inr (), w1,
           [DownloadMedia,
            ConsoleError ([0x274C] @ js '' Failed to download media''),
            Reply ([0x274C] @ js '' Error downloading media.'')])
      | (Inr (Some m), w1) \<Rightarrow>
          (let fileSizeMB = estimateFileSize (data m) in
           if fileSizeMB > MAX_FILE_SIZE_MB then
             (Inr (), w1,
              [DownloadMedia,
               ConsoleError
                 ([0x274C] @ js '' File too large: '' @ Number_toString fileSizeMB @
                  js ''MB exceeds '' @ Number_toString MAX_FILE_SIZE_MB @ js ''MB''),
               Reply
                 ([0x274C] @ js '' File is too large ('' @ Number_toString fileSizeMB @
                  js ''MB). Maximum allowed is '' @ Number_toString MAX_FILE_SIZE_MB @ js ''MB.'')])
           else
             (let sanitizedFileName = sanitizeFileName (Date_now rt w1) (filename m);
                  caption = generateCaption (toLocaleString rt) (msg_from msg) (msg_t msg)
              in case sendMediaToTelegram cfg rt (data m) (mimetype m) sanitizedFileName caption
                        (msg_type msg) w1 of
                   (Inl e, w2, t) \<Rightarrow> (Inl e, w2, DownloadMedia # t)
                 | (Inr _, w2, t) \<Rightarrow>
                     (Inr (), w2, DownloadMedia # t @
                        [Reply ([0x2705] @ js '' Media received and sent to Telegram.'')]))))"

text \<open>The handler of the \<open>message\<close> event: the world after it and the events it caused.\<close>

definition onMessage ::
  "config \<Rightarrow> 'w runtime \<Rightarrow> 'w whatsapp_message \<Rightarrow> 'w \<Rightarrow> 'w \<times> event list" where
  "onMessage cfg rt msg w =
     (let normalizedWhatsAppPhone = replacePlus (WHATSAPP_PHONE cfg) in
      if msg_from msg \<noteq> normalizedWhatsAppPhone @ js ''@c.us'' then
        (w, [ConsoleLog
               ([0x23E9] @ js '' Skipping message from '' @ msg_from msg @ js '': Not from '' @
                WHATSAPP_PHONE cfg)])
      else if msg_type msg \<in> set SUPPORTED_MEDIA_TYPES then
        (let incoming = ConsoleLog
               ([0xD83D, 0xDCE5] @ js '' Incoming media from '' @ msg_from msg @ js '': '' @ msg_type msg)
         in case processMedia cfg rt msg w of
              (Inr _, w', t) \<Rightarrow> (w', incoming # t)
            | (Inl e, w', t) \<Rightarrow>
                (w', incoming # t @
                   [ConsoleErrorWith ([0x274C] @ js '' Error processing media: '' @ message e)
                      (msg_type msg) (msg_from msg) (stack e),
                    Reply ([0x274C] @ js '' Error processing media.'')]))
      else (w, []))"

section \<open>Notions used to state the properties\<close>

definition isDigit :: "jschar \<Rightarrow> bool" where
  "isDigit c \<longleftrightarrow> u CHR ''0'' \<le> c \<and> c \<le> u CHR ''9''"

text \<open>The pattern \<open>media_<digits>.bin\<close>: the whole string, with one digit at least.\<close>

definition matchesMediaPattern :: "jsstring \<Rightarrow> bool" where
  "matchesMediaPattern s \<longleftrightarrow>
     10 < length s \<and> take 6 s = js ''media_'' \<and> drop (length s - 4) s = js ''.bin'' \<and>
     list_all isDigit (take (length s - 10) (drop 6 s))"

text \<open>
  The largest time value of ECMAScript, 100,000,000 days after the epoch in milliseconds:
  no clock reading is later.
\<close>

definition maxTimeValue :: nat where
  "maxTimeValue = 8640000000000000"

text \<open>
  An asynchronous action as a caller sees it: each call settles to a rejection or a value
  and leaves the world changed. \<open>worldAfter action w k\<close> is the world after \<open>k\<close>
  successive calls from \<open>w\<close>, and \<open>outcome action w k\<close> what call number \<open>k\<close> (from 0)
  settles to; \<open>isl\<close> of an outcome says that the call failed.
\<close>

type_synonym ('w, 'a) action = "'w \<Rightarrow> (error + 'a) \<times> 'w"

fun worldAfter :: "('w, 'a) action \<Rightarrow> 'w \<Rightarrow> nat \<Rightarrow> 'w" where
  "worldAfter action w 0 = w"
| "worldAfter action w (Suc k) = snd (action (worldAfter action w k))"

definition outcome :: "('w, 'a) action \<Rightarrow> 'w \<Rightarrow> nat \<Rightarrow> error + 'a" where
  "outcome action w k = fst (action (worldAfter action w k))"

text \<open>
  The action with a call counter beside its world, as a test double counts its calls. It
  logs nothing itself, so the events of a run are those of \<open>withRetry\<close>.
\<close>

definition counted :: "('w, 'a) action \<Rightarrow> ('w \<times> nat, 'a) operation" where
  "counted action = (\<lambda>(w, calls). case action w of (r, w') \<Rightarrow> (r, (w', Suc calls), []))"

fun isWarn :: "event \<Rightarrow> bool" where
  "isWarn (ConsoleWarn _) = True"
| "isWarn _ = False"

text \<open>What the loop does after the failed call number \<open>j\<close>, when another call follows.\<close>

definition retryEvents :: "('w, 'a) action \<Rightarrow> 'w \<Rightarrow> nat \<Rightarrow> nat \<Rightarrow> event list" where
  "retryEvents action w attempts j =
     [ConsoleWarn (retryWarning j attempts (projl (outcome action w j))), SetTimeout RETRY_DELAY_MS]"

fun isReply :: "event \<Rightarrow> bool" where
  "isReply (Reply _) = True"
| "isReply _ = False"

fun isTelegramSend :: "event \<Rightarrow> bool" where
  "isTelegramSend (TelegramSend _ _ _ _ _ _) = True"
| "isTelegramSend _ = False"

text \<open>
  The normalization in the words of the specification: a leading \<open>+\<close> is dropped.
  \<open>plusOnlyLeading\<close> holds of a phone that starts with \<open>+\<close> or has no \<open>+\<close> at all, as
  every phone in the documented format (\<open>+\<close>, then digits) does.
\<close>

definition stripLeadingPlus :: "jsstring \<Rightarrow> jsstring" where
  "stripLeadingPlus s = (case s of [] \<Rightarrow> [] | c # cs \<Rightarrow> if c = u CHR ''+'' then cs else s)"

definition plusOnlyLeading :: "jsstring \<Rightarrow> bool" where
  "plusOnlyLeading s = (case s of [] \<Rightarrow> True | c # cs \<Rightarrow> c = u CHR ''+'' \<or> u CHR ''+'' \<notin> set cs)"

section \<open>Example inputs\<close>

definition alwaysFails :: "(unit, unit) action" where
  "alwaysFails w = (Inl \<lparr>message = js ''timeout'', stack = []\<rparr>, w)"

definition failsTwice :: "(nat, unit) action" where
  "failsTwice n = (if n < 2 then Inl \<lparr>message = js ''timeout'', stack = []\<rparr> else Inr (), Suc n)"

definition exampleConfig :: config where
  "exampleConfig =
     \<lparr>TELEGRAM_USER_ID = js ''123456789'', env_WHATSAPP_PHONE = Some (js ''+989170000000'')\<rparr>"

text \<open>A configured phone whose only \<open>+\<close> is not in the leading position.\<close>

definition plusInsideConfig :: config where
  "plusInsideConfig =
     \<lparr>TELEGRAM_USER_ID = js ''123456789'', env_WHATSAPP_PHONE = Some (js ''98+9170000000'')\<rparr>"

definition exampleRuntime :: "unit runtime" where
  "exampleRuntime =
     \<lparr>telegramBot = (\<lambda>sendMethod chatId payload caption contentType fileName w. (Inr (), w)),
      toLocaleString = (\<lambda>ms. js ''11/3/2026, 12:00:00 AM''),
      Date_now = (\<lambda>w. 1793664000000)\<rparr>"

definition exampleMessage :: "jsstring \<Rightarrow> jsstring \<Rightarrow> bool \<Rightarrow> media option \<Rightarrow> unit whatsapp_message" where
  "exampleMessage sender kind has m =
     \<lparr>msg_from = sender, msg_type = kind, msg_t = 1793664000, hasMedia = has,
      downloadMedia = (\<lambda>w. (Inr m, w))\<rparr>"

definition largeMedia :: media where
  "largeMedia =
     \<lparr>data = replicate 111848107 (u CHR ''A''), mimetype = js ''image/jpeg'',
      filename = Some (js ''photo.jpg'')\<rparr>"

definition flakyRuntime :: "nat runtime" where
  "flakyRuntime =
     \<lparr>telegramBot = (\<lambda>sendMethod chatId payload caption contentType fileName n.
        (if n < 2 then Inl \<lparr>message = js ''timeout'', stack = []\<rparr> else Inr (), Suc n)),
      toLocaleString = (\<lambda>ms. js ''11/3/2026, 12:00:00 AM''),
      Date_now = (\<lambda>n. 1793664000000)\<rparr>"

definition smallMedia :: media where
  "smallMedia =
     \<lparr>data = js ''aGVsbG8='', mimetype = js ''text/plain'', filename = Some (js ''my note.txt'')\<rparr>"

definition documentMessage :: "nat whatsapp_message" where
  "documentMessage =
     \<lparr>msg_from = js ''989170000000@c.us'', msg_type = js ''document'', msg_t = 1793664000,
      hasMedia = True, downloadMedia = (\<lambda>n. (Inr (Some smallMedia), n))\<rparr>"

section \<open>Destination operation\<close>

text \<open>claim C6: each supported media kind selects its destination operation:
  image gives sendPhoto, video gives sendVideo, audio gives sendAudio, and document and
  sticker both give sendDocument.\<close>

theorem getTelegramSendMethod_supported:
  "getTelegramSendMethod (js ''image'') = js ''sendPhoto'' \<and>
   getTelegramSendMethod (js ''video'') = js ''sendVideo'' \<and>
   getTelegramSendMethod (js ''audio'') = js ''sendAudio'' \<and>
   getTelegramSendMethod (js ''document'') = js ''sendDocument'' \<and>
   getTelegramSendMethod (js ''sticker'') = js ''sendDocument'' \<and>
   map getTelegramSendMethod SUPPORTED_MEDIA_TYPES =
     [js ''sendPhoto'', js ''sendVideo'', js ''sendAudio'', js ''sendDocument'', js ''sendDocument'']"
  by (simp add: getTelegramSendMethod_def SUPPORTED_MEDIA_TYPES_def js_def u_def)

section \<open>File names\<close>

lemma safeChar_underscore: "safeChar (u CHR ''_'')"
  by (simp add: safeChar_def u_def)

lemma digit_isDigit: "d < 10 \<Longrightarrow> isDigit (digit d)"
proof -
  assume d: "d < 10"
  have "unat (of_nat (48 + d) :: jschar) = 48 + d"
    using d by (simp only: unat_of_nat) simp
  moreover have "unat (u CHR ''0'') = 48" "unat (u CHR ''9'') = 57"
    by (simp_all add: u_def)
  ultimately show ?thesis
    using d by (simp only: isDigit_def digit_def word_le_nat_alt) simp
qed

lemma isDigit_safeChar: "isDigit c \<Longrightarrow> safeChar c"
  by (simp add: isDigit_def safeChar_def)

lemma digits_isDigit: "list_all isDigit (digits n)"
proof (induction n rule: digits.induct)
  case (1 n)
  show ?case
  proof (cases "n < 10")
    case True
    then show ?thesis by (subst digits.simps) (simp add: digit_isDigit)
  next
    case False
    with 1 show ?thesis by (subst digits.simps) (simp add: digit_isDigit)
  qed
qed

lemma digits_nonempty: "digits n \<noteq> []"
  by (subst digits.simps) simp

lemma length_digits: "n < 10 ^ k \<Longrightarrow> 0 < k \<Longrightarrow> length (digits n) \<le> k"
proof (induction n arbitrary: k rule: digits.induct)
  case (1 n)
  show ?case
  proof (cases "n < 10")
    case True
    then show ?thesis using 1(3) by (subst digits.simps) simp
  next
    case False
    then obtain k' where k': "k = Suc k'" using 1(3) by (cases k) auto
    with False 1(2) have "0 < k'" by (cases k') auto
    moreover from 1(2) k' have "n div 10 < 10 ^ k'" by (simp add: less_mult_imp_div_less mult.commute)
    ultimately have "length (digits (n div 10)) \<le> k'" using 1(1) [OF False] by blast
    with False k' show ?thesis by (subst digits.simps) simp
  qed
qed

lemma length_js: "length (js s) = length s" by (simp add: js_def)

lemma placeholder_matches: "matchesMediaPattern (js ''media_'' @ Number_toString (int now) @ js ''.bin'')"
  using digits_nonempty [of now] digits_isDigit [of now]
  by (simp add: matchesMediaPattern_def Number_toString_def length_js)





text \<open>The pattern, read as a regular expression would be.\<close>

lemma matchesMediaPattern_iff:
  "matchesMediaPattern s \<longleftrightarrow>
     (\<exists>ds. ds \<noteq> [] \<and> list_all isDigit ds \<and> s = js ''media_'' @ ds @ js ''.bin'')"
proof
  assume m: "matchesMediaPattern s"
  let ?ds = "take (length s - 10) (drop 6 s)"
  from m have len: "10 < length s" and p: "take 6 s = js ''media_''"
    and q: "drop (length s - 4) s = js ''.bin''" and d: "list_all isDigit ?ds"
    by (simp_all add: matchesMediaPattern_def)
  have "s = take 6 s @ drop 6 s" by simp
  also have "drop 6 s = ?ds @ drop (length s - 10) (drop 6 s)"
    by (simp only: append_take_drop_id)
  also have "drop (length s - 10) (drop 6 s) = drop (length s - 4) s"
    using len by (simp add: add.commute)
  finally have "s = js ''media_'' @ ?ds @ js ''.bin''" using p q by simp
  moreover from len have "?ds \<noteq> []" by simp
  ultimately show "\<exists>ds. ds \<noteq> [] \<and> list_all isDigit ds \<and> s = js ''media_'' @ ds @ js ''.bin''"
    using d by blast
next
  assume "\<exists>ds. ds \<noteq> [] \<and> list_all isDigit ds \<and> s = js ''media_'' @ ds @ js ''.bin''"
  then obtain ds where "ds \<noteq> []" "list_all isDigit ds" "s = js ''media_'' @ ds @ js ''.bin''"
    by blast
  then show "matchesMediaPattern s"
    by (simp add: matchesMediaPattern_def length_js)
qed

lemma replaceUnsafe_safe: "list_all safeChar (replaceUnsafe s)"
  by (induction s) (simp_all add: replaceUnsafe_def safeChar_underscore)

lemma replaceUnsafe_id: "list_all safeChar s \<Longrightarrow> replaceUnsafe s = s"
  by (induction s) (simp_all add: replaceUnsafe_def)

lemma list_all_take: "list_all P xs \<Longrightarrow> list_all P (take n xs)"
  by (auto simp: list_all_iff dest: in_set_takeD)

lemma js_safe: "list_all safeChar (js ''media_'')" "list_all safeChar (js ''.bin'')"
  by (simp_all add: js_def safeChar_def u_def)

lemma digits_safe: "list_all safeChar (digits n)"
  using digits_isDigit [of n] by (auto simp: list_all_iff isDigit_safeChar)

lemma placeholder_safe: "list_all safeChar (js ''media_'' @ Number_toString (int now) @ js ''.bin'')"
  by (simp add: js_safe digits_safe Number_toString_def)

lemma placeholder_length:
  assumes "now \<le> maxTimeValue"
  shows "length (js ''media_'' @ Number_toString (int now) @ js ''.bin'') \<le> 26"
proof -
  from assms have "now < 10 ^ 16" by (simp add: maxTimeValue_def)
  then have "length (digits now) \<le> 16" by (rule length_digits) simp
  then show ?thesis by (simp add: Number_toString_def length_js)
qed

text \<open>claim C8: for an absent or empty name the result matches \<open>media_<digits>.bin\<close>; for
  every name the result has only characters of \<open>[A-Za-z0-9._-]\<close>, and at most 64 of them
  (for the generated placeholder, whatever the clock reads within the range of time values).\<close>

theorem sanitizeFileName_safe:
  "matchesMediaPattern (sanitizeFileName now None) \<and>
   matchesMediaPattern (sanitizeFileName now (Some [])) \<and>
   list_all safeChar (sanitizeFileName now name) \<and>
   (now \<le> maxTimeValue \<longrightarrow> length (sanitizeFileName now name) \<le> 64)"
proof -
  have 1: "matchesMediaPattern (sanitizeFileName now None)"
    by (simp add: sanitizeFileName_def placeholder_matches)
  have 2: "matchesMediaPattern (sanitizeFileName now (Some []))"
    by (simp add: sanitizeFileName_def placeholder_matches)
  have 3: "list_all safeChar (sanitizeFileName now name)"
    using placeholder_safe [of now]
    by (simp add: sanitizeFileName_def substring0_def replaceUnsafe_safe list_all_take
          split: option.split)
  have 4: "length (sanitizeFileName now name) \<le> 64" if "now \<le> maxTimeValue"
    using placeholder_length [OF that]
    by (simp add: sanitizeFileName_def substring0_def split: option.split)
  from 1 2 3 4 show ?thesis by blast
qed

theorem sanitizeFileName_safe_witness:
  "(1793664000000::nat) \<le> maxTimeValue \<and>
   sanitizeFileName 1793664000000 None = js ''media_1793664000000.bin'' \<and>
   matchesMediaPattern (sanitizeFileName 1793664000000 None) \<and>
   length (sanitizeFileName 1793664000000 None) \<le> 64"
proof -
  have h: "(1793664000000::nat) \<le> maxTimeValue" by (simp add: maxTimeValue_def)
  have v: "sanitizeFileName 1793664000000 None = js ''media_1793664000000.bin''"
    by (simp add: sanitizeFileName_def Number_toString_def digits.simps digit_def js_def u_def)
  from h v sanitizeFileName_safe [of 1793664000000 None] show ?thesis by simp
qed

text \<open>claim C10: on a non-empty name, sanitizing a second time changes nothing.\<close>

theorem sanitizeFileName_idempotent:
  "x \<noteq> [] \<Longrightarrow>
   sanitizeFileName now' (Some (sanitizeFileName now (Some x))) = sanitizeFileName now (Some x)"
proof -
  assume x: "x \<noteq> []"
  let ?y = "take 64 (replaceUnsafe x)"
  have y: "sanitizeFileName now (Some x) = ?y"
    using x by (simp add: sanitizeFileName_def substring0_def)
  have ne: "?y \<noteq> []" using x by (simp add: replaceUnsafe_def)
  have "list_all safeChar ?y" by (simp add: replaceUnsafe_safe list_all_take)
  then have "replaceUnsafe ?y = ?y" by (rule replaceUnsafe_id)
  then have "sanitizeFileName now' (Some ?y) = ?y"
    using ne by (simp add: sanitizeFileName_def substring0_def)
  with y show ?thesis by simp
qed

theorem sanitizeFileName_idempotent_witness:
  "js ''my file (1).png'' \<noteq> [] \<and>
   sanitizeFileName 7 (Some (js ''my file (1).png'')) = js ''my_file__1_.png'' \<and>
   sanitizeFileName 9 (Some (sanitizeFileName 7 (Some (js ''my file (1).png'')))) =
     sanitizeFileName 7 (Some (js ''my file (1).png''))"
proof -
  have h: "js ''my file (1).png'' \<noteq> []" by (simp add: js_def)
  have v: "sanitizeFileName 7 (Some (js ''my file (1).png'')) = js ''my_file__1_.png''"
    by (simp add: sanitizeFileName_def substring0_def replaceUnsafe_def safeChar_def js_def u_def)
  from h v sanitizeFileName_idempotent [OF h, of 9 7] show ?thesis by simp
qed

section \<open>Size estimate\<close>

lemma estimateFileSize_closed:
  "estimateFileSize d = (3 * int (length d) + 2097152) div 4194304"
proof -
  have "real (length d) * 3 / 4 / 1024 / 1024 + 1 / 2
        = real_of_int (3 * int (length d) + 2097152) / real_of_int 4194304"
    by simp
  then have "Math_round (real (length d) * 3 / 4 / 1024 / 1024)
        = \<lfloor>real_of_int (3 * int (length d) + 2097152) / real_of_int 4194304\<rfloor>"
    by (simp only: Math_round_def)
  also have "\<dots> = (3 * int (length d) + 2097152) div 4194304"
    by (rule floor_divide_of_int_eq)
  finally show ?thesis by (simp add: estimateFileSize_def)
qed

text \<open>claim C7: the estimate is the length times 3/4, in MiB, rounded to the nearest
  integer, and it never decreases when the data gets longer.\<close>

theorem estimateFileSize_round_monotonic:
  "estimateFileSize d = round (real (length d) * 3 / 4 / 1024 / 1024) \<and>
   (length d \<le> length d' \<longrightarrow> estimateFileSize d \<le> estimateFileSize d')"
proof
  show "estimateFileSize d = round (real (length d) * 3 / 4 / 1024 / 1024)"
    by (simp add: estimateFileSize_def Math_round_def round_def)
  show "length d \<le> length d' \<longrightarrow> estimateFileSize d \<le> estimateFileSize d'"
  proof
    assume "length d \<le> length d'"
    then have "3 * int (length d) + 2097152 \<le> 3 * int (length d') + 2097152" by simp
    then show "estimateFileSize d \<le> estimateFileSize d'"
      unfolding estimateFileSize_closed by (rule zdiv_mono1) simp
  qed
qed

theorem estimateFileSize_round_monotonic_witness:
  "length (replicate 1000000 (0x41 :: jschar)) \<le> length (replicate 3000000 (0x41 :: jschar)) \<and>
   estimateFileSize (replicate 1000000 0x41) = 1 \<and>
   estimateFileSize (replicate 3000000 0x41) = 2 \<and>
   estimateFileSize (replicate 1000000 0x41) \<le> estimateFileSize (replicate 3000000 0x41)"
  using estimateFileSize_round_monotonic [of "replicate 1000000 0x41" "replicate 3000000 0x41"]
  by (simp add: estimateFileSize_closed)

text \<open>A tie goes up: 6291456 code units stand for 4.5 MiB, estimated as 5.\<close>

lemma estimateFileSize_tie: "estimateFileSize (replicate 6291456 0x41) = 5"
  by (simp add: estimateFileSize_closed)

section \<open>Caption\<close>

lemma length_caption_prefix:
  "length (js ''Media from WhatsApp:'' @ [0x0A] @ js ''From: '') = 27"
  by (simp add: js_def)

text \<open>claim C9: the caption has at most 200 characters, and it contains the sender
  string whenever the sender ends before the truncation point (the sender starts at
  offset 27 of the template).\<close>

theorem generateCaption_bounded:
  "length (generateCaption fmt sender ts) \<le> 200 \<and>
   (27 + length sender \<le> 200 \<longrightarrow>
      take (length sender) (drop 27 (generateCaption fmt sender ts)) = sender \<and>
      sublist sender (generateCaption fmt sender ts))"
proof
  show "length (generateCaption fmt sender ts) \<le> 200"
    by (simp add: generateCaption_def substring0_def)
  show "27 + length sender \<le> 200 \<longrightarrow>
      take (length sender) (drop 27 (generateCaption fmt sender ts)) = sender \<and>
      sublist sender (generateCaption fmt sender ts)"
  proof
    assume fits: "27 + length sender \<le> 200"
    let ?p = "js ''Media from WhatsApp:'' @ [0x0A] @ js ''From: ''"
    let ?r = "[0x0A] @ js ''Time: '' @ fmt (ts * 1000)"
    have p: "length ?p = 27" by (rule length_caption_prefix)
    have c: "generateCaption fmt sender ts = take 200 (?p @ sender @ ?r)"
      by (simp add: generateCaption_def substring0_def)
    have "take 200 (?p @ sender @ ?r) = ?p @ sender @ take (200 - 27 - length sender) ?r"
      using fits p by (simp add: js_def)
    with c have d: "generateCaption fmt sender ts = ?p @ sender @ take (200 - 27 - length sender) ?r"
      by simp
    have 1: "take (length sender) (drop 27 (generateCaption fmt sender ts)) = sender"
      unfolding d using p by (simp add: js_def)
    have 2: "sublist sender (generateCaption fmt sender ts)"
      unfolding d sublist_def by blast
    from 1 2 show "take (length sender) (drop 27 (generateCaption fmt sender ts)) = sender \<and>
      sublist sender (generateCaption fmt sender ts)" by simp
  qed
qed

theorem generateCaption_bounded_witness:
  "27 + length (js ''989170000000@c.us'') \<le> 200 \<and>
   generateCaption (\<lambda>ms. js ''11/3/2026, 12:00:00 AM'') (js ''989170000000@c.us'') 1793664000 =
     js ''Media from WhatsApp:'' @ [0x0A] @ js ''From: 989170000000@c.us'' @ [0x0A] @
     js ''Time: 11/3/2026, 12:00:00 AM'' \<and>
   sublist (js ''989170000000@c.us'')
     (generateCaption (\<lambda>ms. js ''11/3/2026, 12:00:00 AM'') (js ''989170000000@c.us'') 1793664000)"
proof -
  have h: "27 + length (js ''989170000000@c.us'') \<le> 200" by (simp add: js_def)
  have v: "generateCaption (\<lambda>ms. js ''11/3/2026, 12:00:00 AM'') (js ''989170000000@c.us'') 1793664000 =
     js ''Media from WhatsApp:'' @ [0x0A] @ js ''From: 989170000000@c.us'' @ [0x0A] @
     js ''Time: 11/3/2026, 12:00:00 AM''"
    by (simp add: generateCaption_def substring0_def js_def)
  from h v generateCaption_bounded [of "\<lambda>ms. js ''11/3/2026, 12:00:00 AM''" "js ''989170000000@c.us''" 1793664000]
  show ?thesis by simp
qed

section \<open>Retry wrapper: calls and warnings\<close>

lemma counted_at:
  "counted action (worldAfter action w i, i) =
     (outcome action w i, (worldAfter action w (Suc i), Suc i), [])"
  by (simp add: counted_def outcome_def split: prod.split)

lemma loop_counted:
  "withRetry_loop (counted action) n i (worldAfter action w i, i) = (r, (w', c), t) \<Longrightarrow> i < n \<Longrightarrow>
     i < c \<and> c \<le> n \<and> w' = worldAfter action w c \<and>
     r = map_sum id Some (outcome action w (c - 1)) \<and>
     (\<forall>j. i \<le> j \<and> j < c - 1 \<longrightarrow> isl (outcome action w j)) \<and>
     (isl r \<longrightarrow> c = n) \<and>
     t = concat (map (retryEvents action w n) [i..<c - 1])"
proof (induction "n - i" arbitrary: i r w' c t)
  case 0
  then show ?case by simp
next
  case (Suc d)
  show ?case
  proof (cases "outcome action w i")
    case (Inr v)
    with Suc.prems have "(r, (w', c), t) = (Inr (Some v), (worldAfter action w (Suc i), Suc i), [])"
      by (subst (asm) withRetry_loop.simps) (auto simp: counted_at)
    with Inr Suc.prems(2) show ?thesis by auto
  next
    case (Inl e)
    show ?thesis
    proof (cases "i = n - 1")
      case True
      with Inl Suc.prems have "(r, (w', c), t) = (Inl e, (worldAfter action w (Suc i), Suc i), [])"
        by (subst (asm) withRetry_loop.simps) (auto simp: counted_at)
      with Inl True Suc.prems(2) show ?thesis by auto
    next
      case False
      with Suc.prems(2) have lt: "Suc i < n" by simp
      obtain r1 w1 c1 t1 where rec:
        "withRetry_loop (counted action) n (Suc i) (worldAfter action w (Suc i), Suc i) = (r1, (w1, c1), t1)"
        by (metis prod.exhaust)
      from Suc.hyps(2) have d: "d = n - Suc i" by simp
      note ih = Suc.hyps(1) [OF d rec lt]
      have "withRetry_loop (counted action) n i (worldAfter action w i, i) =
              (r1, (w1, c1), [ConsoleWarn (retryWarning i n e), SetTimeout RETRY_DELAY_MS] @ t1)"
        using Inl False Suc.prems(2) rec
        by (subst withRetry_loop.simps) (simp add: counted_at)
      with Suc.prems(1)
      have eq: "r = r1" "w' = w1" "c = c1"
        "t = [ConsoleWarn (retryWarning i n e), SetTimeout RETRY_DELAY_MS] @ t1"
        by simp_all
      from ih have c1: "Suc i < c1" and c1n: "c1 \<le> n"
        and w1: "w1 = worldAfter action w c1"
        and r1: "r1 = map_sum id Some (outcome action w (c1 - 1))"
        and f1: "\<forall>j. Suc i \<le> j \<and> j < c1 - 1 \<longrightarrow> isl (outcome action w j)"
        and l1: "isl r1 \<longrightarrow> c1 = n"
        and t1: "t1 = concat (map (retryEvents action w n) [Suc i..<c1 - 1])"
        by blast+
      from c1 have up: "[i..<c1 - 1] = i # [Suc i..<c1 - 1]"
        by (simp add: upt_conv_Cons)
      have ev: "retryEvents action w n i = [ConsoleWarn (retryWarning i n e), SetTimeout RETRY_DELAY_MS]"
        using Inl by (simp add: retryEvents_def)
      have fails: "\<forall>j. i \<le> j \<and> j < c1 - 1 \<longrightarrow> isl (outcome action w j)"
      proof (intro allI impI)
        fix j assume j: "i \<le> j \<and> j < c1 - 1"
        show "isl (outcome action w j)"
        proof (cases "j = i")
          case True
          with Inl show ?thesis by simp
        next
          case False
          with j have "Suc i \<le> j \<and> j < c1 - 1" by simp
          with f1 show ?thesis by blast
        qed
      qed
      have tr: "t = concat (map (retryEvents action w n) [i..<c - 1])"
        unfolding eq up t1 by (simp add: ev)
      from c1 have "i < c1" by simp
      with c1n w1 r1 fails l1 tr show ?thesis unfolding eq by blast
    qed
  qed
qed

lemma withRetry_counted:
  assumes "withRetry (counted action) n (w, 0) = (r, (w', c), t)" and "0 < n"
  shows "0 < c \<and> c \<le> n \<and> w' = worldAfter action w c \<and>
     r = map_sum id Some (outcome action w (c - 1)) \<and>
     (\<forall>j. j < c - 1 \<longrightarrow> isl (outcome action w j)) \<and>
     (isl r \<longrightarrow> c = n) \<and>
     t = concat (map (retryEvents action w n) [0..<c - 1])"
proof -
  from assms(1)
  have "withRetry_loop (counted action) n 0 (worldAfter action w 0, 0) = (r, (w', c), t)"
    by (simp add: withRetry_def)
  from loop_counted [OF this assms(2)] show ?thesis
    by (blast intro: le0)
qed

lemma withRetry_zero: "withRetry operation 0 w = (Inr None, w, [])"
  by (simp add: withRetry_def withRetry_loop.simps)

lemma filter_isWarn_retryEvents:
  "filter isWarn (concat (map (retryEvents action w n) ks)) =
     map (\<lambda>j. ConsoleWarn (retryWarning j n (projl (outcome action w j)))) ks"
  by (induction ks) (simp_all add: retryEvents_def)

text \<open>claim C2: with 3 attempts the action is called at most 3 times; if its first
  \<open>k - 1\<close> calls fail and call \<open>k \<le> 3\<close> succeeds, that success is returned after exactly
  \<open>k\<close> calls; if all 3 calls fail, the third error is thrown after exactly 3 calls.\<close>

theorem withRetry_three_attempts:
  "case withRetry (counted action) 3 (w, 0) of
     (r, (w', calls), t) \<Rightarrow>
       calls \<le> 3 \<and>
       (\<forall>k v. 1 \<le> k \<and> k \<le> 3 \<and> (\<forall>j<k - 1. isl (outcome action w j)) \<and>
              outcome action w (k - 1) = Inr v
          \<longrightarrow> r = Inr (Some v) \<and> calls = k) \<and>
       (\<forall>e. (\<forall>j<3. isl (outcome action w j)) \<and> outcome action w 2 = Inl e
          \<longrightarrow> r = Inl e \<and> calls = 3)"
proof -
  obtain r w' c t where run: "withRetry (counted action) 3 (w, 0) = (r, (w', c), t)"
    by (metis prod.exhaust)
  have "0 < (3::nat)" by simp
  note f = withRetry_counted [OF run this]
  have c: "0 < c" "c \<le> 3"
    and r: "r = map_sum id Some (outcome action w (c - 1))"
    and before: "\<And>j. j < c - 1 \<Longrightarrow> isl (outcome action w j)"
    and last: "isl r \<Longrightarrow> c = 3"
    using f by blast+
  have succ: "r = Inr (Some v) \<and> c = k"
    if k: "1 \<le> k" "k \<le> 3" and fails: "\<forall>j<k - 1. isl (outcome action w j)"
      and ok: "outcome action w (k - 1) = Inr v" for k v
  proof -
    have "\<not> k - 1 < c - 1" using before [of "k - 1"] ok by auto
    moreover have "\<not> c - 1 < k - 1"
    proof
      assume lt: "c - 1 < k - 1"
      with fails have "isl (outcome action w (c - 1))" by simp
      with r have "isl r" by (cases "outcome action w (c - 1)") simp_all
      with last have "c = 3" by simp
      with lt k show False by simp
    qed
    ultimately have "c - 1 = k - 1" by simp
    with c k have "c = k" by simp
    with r ok show ?thesis by simp
  qed
  have exhausted: "r = Inl e \<and> c = 3"
    if fails: "\<forall>j<3. isl (outcome action w j)" and third: "outcome action w 2 = Inl e" for e
  proof -
    from c fails have "isl (outcome action w (c - 1))" by simp
    with r have "isl r" by (cases "outcome action w (c - 1)") simp_all
    with last have "c = 3" by simp
    with r third show ?thesis by simp
  qed
  have A: "c \<le> 3" by fact
  have B: "\<forall>k v. 1 \<le> k \<and> k \<le> 3 \<and> (\<forall>j<k - 1. isl (outcome action w j)) \<and>
              outcome action w (k - 1) = Inr v
          \<longrightarrow> r = Inr (Some v) \<and> c = k"
    using succ by blast
  have C: "\<forall>e. (\<forall>j<3. isl (outcome action w j)) \<and> outcome action w 2 = Inl e
          \<longrightarrow> r = Inl e \<and> c = 3"
    using exhausted by blast
  from A B C show ?thesis unfolding run by (simp only: prod.case simp_thms)
qed

lemma worldAfter_failsTwice: "worldAfter failsTwice 0 j = j"
  by (induction j) (simp_all add: failsTwice_def)

lemma outcome_failsTwice:
  "outcome failsTwice 0 j = (if j < 2 then Inl \<lparr>message = js ''timeout'', stack = []\<rparr> else Inr ())"
  by (simp add: outcome_def worldAfter_failsTwice failsTwice_def)

lemma outcome_alwaysFails:
  "outcome alwaysFails () j = Inl \<lparr>message = js ''timeout'', stack = []\<rparr>"
  by (simp add: outcome_def alwaysFails_def)


lemma run_failsTwice:
  "withRetry (counted failsTwice) 3 (0, 0) =
     (Inr (Some ()), (3, 3),
      [ConsoleWarn (retryWarning 0 3 \<lparr>message = js ''timeout'', stack = []\<rparr>), SetTimeout 1000,
       ConsoleWarn (retryWarning 1 3 \<lparr>message = js ''timeout'', stack = []\<rparr>), SetTimeout 1000])"
  by (simp add: withRetry_def withRetry_loop.simps counted_def failsTwice_def RETRY_ATTEMPTS_def
        RETRY_DELAY_MS_def)

lemma run_alwaysFails:
  "withRetry (counted alwaysFails) 3 ((), 0) =
     (Inl \<lparr>message = js ''timeout'', stack = []\<rparr>, ((), 3),
      [ConsoleWarn (retryWarning 0 3 \<lparr>message = js ''timeout'', stack = []\<rparr>), SetTimeout 1000,
       ConsoleWarn (retryWarning 1 3 \<lparr>message = js ''timeout'', stack = []\<rparr>), SetTimeout 1000])"
  by (simp add: withRetry_def withRetry_loop.simps counted_def alwaysFails_def RETRY_ATTEMPTS_def
        RETRY_DELAY_MS_def)


theorem withRetry_three_attempts_witness:
  "isl (outcome failsTwice 0 0) \<and> isl (outcome failsTwice 0 1) \<and> outcome failsTwice 0 2 = Inr () \<and>
   fst (withRetry (counted failsTwice) 3 (0, 0)) = Inr (Some ()) \<and>
   snd (fst (snd (withRetry (counted failsTwice) 3 (0, 0)))) = 3 \<and>
   isl (outcome alwaysFails () 0) \<and> isl (outcome alwaysFails () 1) \<and>
   outcome alwaysFails () 2 = Inl \<lparr>message = js ''timeout'', stack = []\<rparr> \<and>
   fst (withRetry (counted alwaysFails) 3 ((), 0)) =
     Inl \<lparr>message = js ''timeout'', stack = []\<rparr> \<and>
   snd (fst (snd (withRetry (counted alwaysFails) 3 ((), 0)))) = 3"
proof -
  let ?run = "withRetry (counted failsTwice) 3 (0, 0)"
  let ?run' = "withRetry (counted alwaysFails) 3 ((), 0)"
  have o: "isl (outcome failsTwice 0 0)" "isl (outcome failsTwice 0 1)" "outcome failsTwice 0 2 = Inr ()"
    by (simp_all add: outcome_failsTwice)
  have "\<forall>k v. 1 \<le> k \<and> k \<le> 3 \<and> (\<forall>j<k - 1. isl (outcome failsTwice 0 j)) \<and>
              outcome failsTwice 0 (k - 1) = Inr v
          \<longrightarrow> fst ?run = Inr (Some v) \<and> snd (fst (snd ?run)) = k"
    using withRetry_three_attempts [where action = failsTwice and w = 0] by (simp add: split_beta)
  then have "1 \<le> (3::nat) \<and> (3::nat) \<le> 3 \<and> (\<forall>j<3 - 1. isl (outcome failsTwice 0 j)) \<and>
              outcome failsTwice 0 (3 - 1) = Inr ()
          \<longrightarrow> fst ?run = Inr (Some ()) \<and> snd (fst (snd ?run)) = 3"
    by blast
  moreover have "\<forall>j<3 - 1. isl (outcome failsTwice 0 j)"
  proof -
    from o(2) have "isl (outcome failsTwice 0 (Suc 0))" by simp
    with o(1) show ?thesis by (auto simp: less_Suc_eq numeral_2_eq_2)
  qed
  ultimately have a: "fst ?run = Inr (Some ()) \<and> snd (fst (snd ?run)) = 3"
    using o by simp
  have o': "isl (outcome alwaysFails () 0)" "isl (outcome alwaysFails () 1)"
    "outcome alwaysFails () 2 = Inl \<lparr>message = js ''timeout'', stack = []\<rparr>"
    by (simp_all add: outcome_alwaysFails)
  have "\<forall>e. (\<forall>j<3. isl (outcome alwaysFails () j)) \<and> outcome alwaysFails () 2 = Inl e
          \<longrightarrow> fst ?run' = Inl e \<and> snd (fst (snd ?run')) = 3"
    using withRetry_three_attempts [where action = alwaysFails and w = "()"] by (simp add: split_beta)
  then have b: "fst ?run' = Inl \<lparr>message = js ''timeout'', stack = []\<rparr> \<and> snd (fst (snd ?run')) = 3"
    by (simp add: outcome_alwaysFails)
  from o a o' b show ?thesis by blast
qed

text \<open>claim C5, amended: the warnings of a run are, in order, one for every failed
  call that is followed by another call, each carrying the number of the attempt (from 1)
  and the message of its error; the last call of a run causes no warning, also when it is
  the final failure of an exhausted run, whose error is thrown instead.\<close>

theorem withRetry_warnings:
  "case withRetry (counted action) attempts (w, 0) of
     (r, (w', calls), t) \<Rightarrow>
       t = concat (map (retryEvents action w attempts) [0..<calls - 1]) \<and>
       filter isWarn t =
         map (\<lambda>j. ConsoleWarn (retryWarning j attempts (projl (outcome action w j)))) [0..<calls - 1] \<and>
       (\<forall>j<calls - 1. isl (outcome action w j)) \<and>
       (isl r \<longrightarrow> calls = attempts \<and> isl (outcome action w (calls - 1)))"
proof (cases "attempts = 0")
  case True
  then show ?thesis by (simp add: withRetry_zero)
next
  case False
  obtain r w' c t where run: "withRetry (counted action) attempts (w, 0) = (r, (w', c), t)"
    by (metis prod.exhaust)
  from False have "0 < attempts" by simp
  note f = withRetry_counted [OF run this]
  have t: "t = concat (map (retryEvents action w attempts) [0..<c - 1])"
    and r: "r = map_sum id Some (outcome action w (c - 1))"
    and before: "\<forall>j<c - 1. isl (outcome action w j)"
    and last: "isl r \<longrightarrow> c = attempts"
    using f by blast+
  have w: "filter isWarn t =
         map (\<lambda>j. ConsoleWarn (retryWarning j attempts (projl (outcome action w j)))) [0..<c - 1]"
    unfolding t by (rule filter_isWarn_retryEvents)
  have "isl r \<longrightarrow> isl (outcome action w (c - 1))"
    unfolding r by (cases "outcome action w (c - 1)") simp_all
  with last have l: "isl r \<longrightarrow> c = attempts \<and> isl (outcome action w (c - 1))" by blast
  from t w before l show ?thesis unfolding run by (simp only: prod.case simp_thms)
qed

lemma retryWarning_text:
  "retryWarning 0 3 \<lparr>message = js ''timeout'', stack = []\<rparr> =
     [0x26A0, 0xFE0F] @ js '' Retry 1/3 due to error: timeout''"
  "retryWarning (Suc 0) 3 \<lparr>message = js ''timeout'', stack = []\<rparr> =
     [0x26A0, 0xFE0F] @ js '' Retry 2/3 due to error: timeout''"
  by (simp_all add: retryWarning_def Number_toString_def digits.simps digit_def js_def u_def)

theorem withRetry_warnings_witness:
  "isl (fst (withRetry (counted alwaysFails) 3 ((), 0))) \<and>
   snd (fst (snd (withRetry (counted alwaysFails) 3 ((), 0)))) = 3 \<and>
   isl (outcome alwaysFails () 0) \<and> isl (outcome alwaysFails () 1) \<and> isl (outcome alwaysFails () 2) \<and>
   filter isWarn (snd (snd (withRetry (counted alwaysFails) 3 ((), 0)))) =
     [ConsoleWarn ([0x26A0, 0xFE0F] @ js '' Retry 1/3 due to error: timeout''),
      ConsoleWarn ([0x26A0, 0xFE0F] @ js '' Retry 2/3 due to error: timeout'')]"
proof -
  let ?run = "withRetry (counted alwaysFails) 3 ((), 0)"
  have c: "isl (fst ?run)" "snd (fst (snd ?run)) = 3"
    using run_alwaysFails by (simp_all add: RETRY_ATTEMPTS_def)
  have "filter isWarn (snd (snd ?run)) =
    map (\<lambda>j. ConsoleWarn (retryWarning j 3 (projl (outcome alwaysFails () j))))
      [0..<snd (fst (snd ?run)) - 1]"
    using withRetry_warnings [where action = alwaysFails and attempts = 3 and w = "()"]
    unfolding case_prod_beta by blast
  also have "\<dots> = [ConsoleWarn ([0x26A0, 0xFE0F] @ js '' Retry 1/3 due to error: timeout''),
      ConsoleWarn ([0x26A0, 0xFE0F] @ js '' Retry 2/3 due to error: timeout'')]"
    by (simp add: c outcome_alwaysFails retryWarning_text upt_rec)
  finally show ?thesis using c by (simp add: outcome_alwaysFails)
qed

text \<open>An action failing all 3 of 3 attempts yields 2 warnings, not 3.\<close>

theorem withRetry_warnings_counterexample:
  "isl (outcome alwaysFails () 0) \<and> isl (outcome alwaysFails () 1) \<and> isl (outcome alwaysFails () 2) \<and>
   fst (withRetry (counted alwaysFails) 3 ((), 0)) = Inl \<lparr>message = js ''timeout'', stack = []\<rparr> \<and>
   snd (fst (snd (withRetry (counted alwaysFails) 3 ((), 0)))) = 3 \<and>
   length (filter isWarn (snd (snd (withRetry (counted alwaysFails) 3 ((), 0))))) = 2"
  using run_alwaysFails by (simp add: RETRY_ATTEMPTS_def outcome_alwaysFails)

section \<open>The handler: sender filter, type gate and size limit\<close>

lemma replacePlus_leading: "plusOnlyLeading s \<Longrightarrow> replacePlus s = stripLeadingPlus s"
  by (cases s) (auto simp: plusOnlyLeading_def replacePlus_def stripLeadingPlus_def remove1_idem)

lemma replacePlus_leading_iff: "replacePlus s = stripLeadingPlus s \<longleftrightarrow> plusOnlyLeading s"
proof (cases s)
  case Nil
  then show ?thesis by (simp add: replacePlus_def stripLeadingPlus_def plusOnlyLeading_def)
next
  case (Cons c cs)
  show ?thesis
  proof (cases "c = u CHR ''+''")
    case True
    with Cons show ?thesis by (simp add: replacePlus_def stripLeadingPlus_def plusOnlyLeading_def)
  next
    case False
    have "remove1 (u CHR ''+'') cs = cs \<longleftrightarrow> u CHR ''+'' \<notin> set cs"
      by (metis remove1_idem length_remove1 in_set_conv_nth One_nat_def Suc_pred length_pos_if_in_set lessI less_irrefl_nat)
    with False Cons show ?thesis by (simp add: replacePlus_def stripLeadingPlus_def plusOnlyLeading_def)
  qed
qed

lemma onMessage_skip:
  "msg_from msg \<noteq> replacePlus (WHATSAPP_PHONE cfg) @ js ''@c.us'' \<Longrightarrow>
   onMessage cfg rt msg w =
     (w, [ConsoleLog ([0x23E9] @ js '' Skipping message from '' @ msg_from msg @ js '': Not from '' @
                      WHATSAPP_PHONE cfg)])"
  by (simp add: onMessage_def)

text \<open>claim C1, amended: a message whose sender differs from the configured phone, its
  first \<open>+\<close> removed and \<open>@c.us\<close> appended, causes one log line and nothing else: no reply,
  no delivery. The first \<open>+\<close> is the leading one for every phone that starts with \<open>+\<close> or
  has none; for such a phone the same holds of a sender that differs from the phone with
  its leading \<open>+\<close> dropped.\<close>

theorem onMessage_other_sender:
  "(msg_from msg \<noteq> replacePlus (WHATSAPP_PHONE cfg) @ js ''@c.us'' \<longrightarrow>
      onMessage cfg rt msg w =
        (w, [ConsoleLog ([0x23E9] @ js '' Skipping message from '' @ msg_from msg @
                         js '': Not from '' @ WHATSAPP_PHONE cfg)])) \<and>
   (plusOnlyLeading (WHATSAPP_PHONE cfg) \<and>
    msg_from msg \<noteq> stripLeadingPlus (WHATSAPP_PHONE cfg) @ js ''@c.us'' \<longrightarrow>
      onMessage cfg rt msg w =
        (w, [ConsoleLog ([0x23E9] @ js '' Skipping message from '' @ msg_from msg @
                         js '': Not from '' @ WHATSAPP_PHONE cfg)]))"
proof (intro conjI impI)
  assume "msg_from msg \<noteq> replacePlus (WHATSAPP_PHONE cfg) @ js ''@c.us''"
  then show "onMessage cfg rt msg w =
        (w, [ConsoleLog ([0x23E9] @ js '' Skipping message from '' @ msg_from msg @
                         js '': Not from '' @ WHATSAPP_PHONE cfg)])"
    by (rule onMessage_skip)
next
  assume a: "plusOnlyLeading (WHATSAPP_PHONE cfg) \<and>
    msg_from msg \<noteq> stripLeadingPlus (WHATSAPP_PHONE cfg) @ js ''@c.us''"
  then have "replacePlus (WHATSAPP_PHONE cfg) = stripLeadingPlus (WHATSAPP_PHONE cfg)"
    by (simp add: replacePlus_leading)
  with a have "msg_from msg \<noteq> replacePlus (WHATSAPP_PHONE cfg) @ js ''@c.us''" by simp
  then show "onMessage cfg rt msg w =
        (w, [ConsoleLog ([0x23E9] @ js '' Skipping message from '' @ msg_from msg @
                         js '': Not from '' @ WHATSAPP_PHONE cfg)])"
    by (rule onMessage_skip)
qed

lemma example_phone: "WHATSAPP_PHONE exampleConfig = js ''+989170000000''"
  by (simp add: WHATSAPP_PHONE_def exampleConfig_def js_def)

lemma example_normalized: "replacePlus (js ''+989170000000'') = js ''989170000000''"
  by (simp add: replacePlus_def js_def u_def)

theorem onMessage_other_sender_witness:
  "js ''15551230000@c.us'' \<noteq> replacePlus (WHATSAPP_PHONE exampleConfig) @ js ''@c.us'' \<and>
   plusOnlyLeading (WHATSAPP_PHONE exampleConfig) \<and>
   js ''15551230000@c.us'' \<noteq> stripLeadingPlus (WHATSAPP_PHONE exampleConfig) @ js ''@c.us'' \<and>
   onMessage exampleConfig exampleRuntime
     (exampleMessage (js ''15551230000@c.us'') (js ''image'') True (Some largeMedia)) () =
     ((), [ConsoleLog ([0x23E9] @
             js '' Skipping message from 15551230000@c.us: Not from +989170000000'')])"
proof -
  let ?msg = "exampleMessage (js ''15551230000@c.us'') (js ''image'') True (Some largeMedia)"
  have h0: "msg_from ?msg \<noteq> replacePlus (WHATSAPP_PHONE exampleConfig) @ js ''@c.us''"
    by (simp add: example_phone replacePlus_def exampleMessage_def js_def u_def)
  have h1: "plusOnlyLeading (WHATSAPP_PHONE exampleConfig)"
    by (simp add: example_phone plusOnlyLeading_def js_def)
  have h2: "msg_from ?msg \<noteq> stripLeadingPlus (WHATSAPP_PHONE exampleConfig) @ js ''@c.us''"
    by (simp add: example_phone stripLeadingPlus_def exampleMessage_def js_def u_def)
  from onMessage_other_sender [where cfg = exampleConfig and msg = ?msg and rt = exampleRuntime
      and w = "()"] h0
  have "onMessage exampleConfig exampleRuntime ?msg () =
        ((), [ConsoleLog ([0x23E9] @ js '' Skipping message from '' @ msg_from ?msg @
                         js '': Not from '' @ WHATSAPP_PHONE exampleConfig)])"
    by blast
  with h0 h1 h2 show ?thesis by (simp add: example_phone exampleMessage_def js_def)
qed

lemma example_sender:
  "replacePlus (WHATSAPP_PHONE exampleConfig) @ js ''@c.us'' = js ''989170000000@c.us''"
  by (simp add: WHATSAPP_PHONE_def exampleConfig_def replacePlus_def js_def u_def)

lemma processMedia_no_media:
  "downloadMedia msg w = (Inr None, w1) \<Longrightarrow>
   processMedia cfg rt msg w =
     (Inr (), w1,
      [DownloadMedia,
       ConsoleError ([0x274C] @ js '' Failed to download media''),
       Reply ([0x274C] @ js '' Error downloading media.'')])"
  by (simp add: processMedia_def)

lemma processMedia_too_large:
  "downloadMedia msg w = (Inr (Some m), w1) \<Longrightarrow> estimateFileSize (data m) > MAX_FILE_SIZE_MB \<Longrightarrow>
   processMedia cfg rt msg w =
     (Inr (), w1,
      [DownloadMedia,
       ConsoleError
         ([0x274C] @ js '' File too large: '' @ Number_toString (estimateFileSize (data m)) @
          js ''MB exceeds '' @ Number_toString MAX_FILE_SIZE_MB @ js ''MB''),
       Reply
         ([0x274C] @ js '' File is too large ('' @ Number_toString (estimateFileSize (data m)) @
          js ''MB). Maximum allowed is '' @ Number_toString MAX_FILE_SIZE_MB @ js ''MB.'')])"
  by (simp add: processMedia_def Let_def)

lemma onMessage_supported:
  "msg_from msg = replacePlus (WHATSAPP_PHONE cfg) @ js ''@c.us'' \<Longrightarrow>
   msg_type msg \<in> set SUPPORTED_MEDIA_TYPES \<Longrightarrow>
   processMedia cfg rt msg w = (Inr (), w1, t) \<Longrightarrow>
   onMessage cfg rt msg w =
     (w1, ConsoleLog ([0xD83D, 0xDCE5] @ js '' Incoming media from '' @ msg_from msg @ js '': '' @
                       msg_type msg) # t)"
  by (simp add: onMessage_def)

text \<open>With the phone \<open>98+9170000000\<close> the sender \<open>989170000000@c.us\<close> differs from the
  phone with its leading \<open>+\<close> dropped (there is none), yet the handler accepts it, the
  first \<open>+\<close> being removed, and replies.\<close>

theorem onMessage_other_sender_counterexample:
  "msg_from (exampleMessage (js ''989170000000@c.us'') (js ''image'') False None) \<noteq>
     stripLeadingPlus (WHATSAPP_PHONE plusInsideConfig) @ js ''@c.us'' \<and>
   onMessage plusInsideConfig exampleRuntime
     (exampleMessage (js ''989170000000@c.us'') (js ''image'') False None) () =
     ((), [ConsoleLog ([0xD83D, 0xDCE5] @ js '' Incoming media from 989170000000@c.us: image''),
           DownloadMedia,
           ConsoleError ([0x274C] @ js '' Failed to download media''),
           Reply ([0x274C] @ js '' Error downloading media.'')])"
proof -
  let ?msg = "exampleMessage (js ''989170000000@c.us'') (js ''image'') False None"
  have p: "WHATSAPP_PHONE plusInsideConfig = js ''98+9170000000''"
    by (simp add: WHATSAPP_PHONE_def plusInsideConfig_def js_def)
  have h0: "msg_from ?msg \<noteq> stripLeadingPlus (WHATSAPP_PHONE plusInsideConfig) @ js ''@c.us''"
    by (simp add: p stripLeadingPlus_def exampleMessage_def js_def u_def)
  have h1: "msg_from ?msg = replacePlus (WHATSAPP_PHONE plusInsideConfig) @ js ''@c.us''"
    by (simp add: p replacePlus_def exampleMessage_def js_def u_def)
  have h2: "msg_type ?msg \<in> set SUPPORTED_MEDIA_TYPES"
    by (simp add: exampleMessage_def SUPPORTED_MEDIA_TYPES_def)
  have h3: "downloadMedia ?msg () = (Inr None, ())"
    by (simp add: exampleMessage_def)
  have "onMessage plusInsideConfig exampleRuntime ?msg () =
     ((), [ConsoleLog ([0xD83D, 0xDCE5] @ js '' Incoming media from 989170000000@c.us: image''),
           DownloadMedia,
           ConsoleError ([0x274C] @ js '' Failed to download media''),
           Reply ([0x274C] @ js '' Error downloading media.'')])"
    using onMessage_supported [OF h1 h2 processMedia_no_media [OF h3]]
    by (simp add: exampleMessage_def js_def)
  with h0 show ?thesis by blast
qed

text \<open>claim C3: a media message from the configured sender whose estimated size exceeds
  the ceiling of 50 MiB gets exactly one reply, which states the measured size and the
  ceiling, and no Telegram send method is called.\<close>

theorem onMessage_too_large:
  assumes "msg_from msg = replacePlus (WHATSAPP_PHONE cfg) @ js ''@c.us''"
    and "msg_type msg \<in> set SUPPORTED_MEDIA_TYPES"
    and "downloadMedia msg w = (Inr (Some m), w1)"
    and "estimateFileSize (data m) > MAX_FILE_SIZE_MB"
  shows "filter isReply (snd (onMessage cfg rt msg w)) =
           [Reply ([0x274C] @ js '' File is too large ('' @ Number_toString (estimateFileSize (data m)) @
                   js ''MB). Maximum allowed is '' @ Number_toString MAX_FILE_SIZE_MB @ js ''MB.'')] \<and>
         filter isTelegramSend (snd (onMessage cfg rt msg w)) = []"
  using onMessage_supported [OF assms(1,2) processMedia_too_large [OF assms(3,4)]]
  by simp

lemma estimate_largeMedia: "estimateFileSize (data largeMedia) = 80"
  by (simp add: largeMedia_def estimateFileSize_closed)

lemma Number_toString_80_50: "Number_toString 80 = js ''80''" "Number_toString MAX_FILE_SIZE_MB = js ''50''"
  by (simp_all add: Number_toString_def MAX_FILE_SIZE_MB_def digits.simps digit_def js_def u_def)

theorem onMessage_too_large_witness:
  "msg_from (exampleMessage (js ''989170000000@c.us'') (js ''image'') True (Some largeMedia)) =
     replacePlus (WHATSAPP_PHONE exampleConfig) @ js ''@c.us'' \<and>
   js ''image'' \<in> set SUPPORTED_MEDIA_TYPES \<and>
   estimateFileSize (data largeMedia) = 80 \<and>
   estimateFileSize (data largeMedia) > MAX_FILE_SIZE_MB \<and>
   filter isReply (snd (onMessage exampleConfig exampleRuntime
       (exampleMessage (js ''989170000000@c.us'') (js ''image'') True (Some largeMedia)) ())) =
     [Reply ([0x274C] @ js '' File is too large (80MB). Maximum allowed is 50MB.'')] \<and>
   filter isTelegramSend (snd (onMessage exampleConfig exampleRuntime
       (exampleMessage (js ''989170000000@c.us'') (js ''image'') True (Some largeMedia)) ())) = []"
proof -
  let ?msg = "exampleMessage (js ''989170000000@c.us'') (js ''image'') True (Some largeMedia)"
  have h1: "msg_from ?msg = replacePlus (WHATSAPP_PHONE exampleConfig) @ js ''@c.us''"
    by (simp add: exampleMessage_def example_sender)
  have h2: "msg_type ?msg \<in> set SUPPORTED_MEDIA_TYPES"
    by (simp add: exampleMessage_def SUPPORTED_MEDIA_TYPES_def)
  have h3: "downloadMedia ?msg () = (Inr (Some largeMedia), ())"
    by (simp add: exampleMessage_def)
  have h4: "estimateFileSize (data largeMedia) > MAX_FILE_SIZE_MB"
    by (simp add: estimate_largeMedia MAX_FILE_SIZE_MB_def)
  from onMessage_too_large [OF h1 h2 h3 h4, of exampleRuntime] h1 h2 h4
  show ?thesis
    by (simp add: estimate_largeMedia Number_toString_80_50 exampleMessage_def js_def)
qed

text \<open>claim C4, amended: a message from the configured sender whose kind is outside the
  supported set is dropped silently: no reply, no delivery, no event at all. A message of
  a supported kind whose download yields no media causes no delivery either, but it is
  answered with exactly one download-error reply.\<close>

theorem onMessage_unsupported_or_no_media:
  assumes "msg_from msg = replacePlus (WHATSAPP_PHONE cfg) @ js ''@c.us''"
  shows "(msg_type msg \<notin> set SUPPORTED_MEDIA_TYPES \<longrightarrow> onMessage cfg rt msg w = (w, [])) \<and>
         (msg_type msg \<in> set SUPPORTED_MEDIA_TYPES \<and> downloadMedia msg w = (Inr None, w1) \<longrightarrow>
            filter isReply (snd (onMessage cfg rt msg w)) =
              [Reply ([0x274C] @ js '' Error downloading media.'')] \<and>
            filter isTelegramSend (snd (onMessage cfg rt msg w)) = [])"
proof (intro conjI impI)
  assume "msg_type msg \<notin> set SUPPORTED_MEDIA_TYPES"
  with assms show "onMessage cfg rt msg w = (w, [])" by (simp add: onMessage_def)
next
  assume a: "msg_type msg \<in> set SUPPORTED_MEDIA_TYPES \<and> downloadMedia msg w = (Inr None, w1)"
  then have s: "msg_type msg \<in> set SUPPORTED_MEDIA_TYPES" and d: "downloadMedia msg w = (Inr None, w1)"
    by simp_all
  note tr = onMessage_supported [OF assms s processMedia_no_media [OF d]]
  show "filter isReply (snd (onMessage cfg rt msg w)) = [Reply ([0x274C] @ js '' Error downloading media.'')]"
    using tr by simp
  show "filter isTelegramSend (snd (onMessage cfg rt msg w)) = []"
    using tr by simp
qed

theorem onMessage_unsupported_or_no_media_witness:
  "msg_from (exampleMessage (js ''989170000000@c.us'') (js ''chat'') False None) =
     replacePlus (WHATSAPP_PHONE exampleConfig) @ js ''@c.us'' \<and>
   js ''chat'' \<notin> set SUPPORTED_MEDIA_TYPES \<and>
   onMessage exampleConfig exampleRuntime
     (exampleMessage (js ''989170000000@c.us'') (js ''chat'') False None) () = ((), []) \<and>
   js ''sticker'' \<in> set SUPPORTED_MEDIA_TYPES \<and>
   downloadMedia (exampleMessage (js ''989170000000@c.us'') (js ''sticker'') False None) () = (Inr None, ()) \<and>
   filter isReply (snd (onMessage exampleConfig exampleRuntime
       (exampleMessage (js ''989170000000@c.us'') (js ''sticker'') False None) ())) =
     [Reply ([0x274C] @ js '' Error downloading media.'')] \<and>
   filter isTelegramSend (snd (onMessage exampleConfig exampleRuntime
       (exampleMessage (js ''989170000000@c.us'') (js ''sticker'') False None) ())) = []"
proof -
  let ?chat = "exampleMessage (js ''989170000000@c.us'') (js ''chat'') False None"
  let ?sticker = "exampleMessage (js ''989170000000@c.us'') (js ''sticker'') False None"
  have c1: "msg_from ?chat = replacePlus (WHATSAPP_PHONE exampleConfig) @ js ''@c.us''"
    by (simp add: exampleMessage_def example_sender)
  have c2: "msg_type ?chat \<notin> set SUPPORTED_MEDIA_TYPES"
    by (simp add: exampleMessage_def SUPPORTED_MEDIA_TYPES_def js_def u_def)
  have s1: "msg_from ?sticker = replacePlus (WHATSAPP_PHONE exampleConfig) @ js ''@c.us''"
    by (simp add: exampleMessage_def example_sender)
  have s2: "msg_type ?sticker \<in> set SUPPORTED_MEDIA_TYPES"
    by (simp add: exampleMessage_def SUPPORTED_MEDIA_TYPES_def)
  have s3: "downloadMedia ?sticker () = (Inr None, ())"
    by (simp add: exampleMessage_def)
  from onMessage_unsupported_or_no_media [OF c1, where rt = exampleRuntime and w = "()"] c2
  have a: "onMessage exampleConfig exampleRuntime ?chat () = ((), [])" by blast
  from onMessage_unsupported_or_no_media [OF s1, where rt = exampleRuntime and w = "()" and ?w1.0 = "()"] s2 s3
  have b: "filter isReply (snd (onMessage exampleConfig exampleRuntime ?sticker ())) =
              [Reply ([0x274C] @ js '' Error downloading media.'')] \<and>
            filter isTelegramSend (snd (onMessage exampleConfig exampleRuntime ?sticker ())) = []"
    by blast
  from c1 c2 s2 s3 a b show ?thesis by (simp add: exampleMessage_def)
qed

text \<open>A message of kind image that carries no media is answered with a reply.\<close>

theorem onMessage_no_media_counterexample:
  "\<not> hasMedia (exampleMessage (js ''989170000000@c.us'') (js ''image'') False None) \<and>
   downloadMedia (exampleMessage (js ''989170000000@c.us'') (js ''image'') False None) () = (Inr None, ()) \<and>
   msg_from (exampleMessage (js ''989170000000@c.us'') (js ''image'') False None) =
     replacePlus (WHATSAPP_PHONE exampleConfig) @ js ''@c.us'' \<and>
   onMessage exampleConfig exampleRuntime
     (exampleMessage (js ''989170000000@c.us'') (js ''image'') False None) () =
     ((), [ConsoleLog ([0xD83D, 0xDCE5] @ js '' Incoming media from 989170000000@c.us: image''),
           DownloadMedia,
           ConsoleError ([0x274C] @ js '' Failed to download media''),
           Reply ([0x274C] @ js '' Error downloading media.'')])"
proof -
  let ?msg = "exampleMessage (js ''989170000000@c.us'') (js ''image'') False None"
  have h0: "\<not> hasMedia ?msg" by (simp add: exampleMessage_def)
  have h1: "msg_from ?msg = replacePlus (WHATSAPP_PHONE exampleConfig) @ js ''@c.us''"
    by (simp add: exampleMessage_def example_sender)
  have h2: "msg_type ?msg \<in> set SUPPORTED_MEDIA_TYPES"
    by (simp add: exampleMessage_def SUPPORTED_MEDIA_TYPES_def)
  have h3: "downloadMedia ?msg () = (Inr None, ())"
    by (simp add: exampleMessage_def)
  have "onMessage exampleConfig exampleRuntime ?msg () =
     ((), [ConsoleLog ([0xD83D, 0xDCE5] @ js '' Incoming media from 989170000000@c.us: image''),
           DownloadMedia,
           ConsoleError ([0x274C] @ js '' Failed to download media''),
           Reply ([0x274C] @ js '' Error downloading media.'')])"
    using onMessage_supported [OF h1 h2 processMedia_no_media [OF h3]]
    by (simp add: exampleMessage_def js_def)
  with h0 h1 h3 show ?thesis by blast
qed

text \<open>
  A whole run: a document from the configured sender, the send failing twice and then
  succeeding.
\<close>

lemma onMessage_delivery_example:
  "onMessage exampleConfig flakyRuntime documentMessage 0 =
     (3,
      [ConsoleLog ([0xD83D, 0xDCE5] @ js '' Incoming media from 989170000000@c.us: document''),
       DownloadMedia,
       ConsoleLog ([0xD83D, 0xDCE4] @
         js '' Sending document to Telegram (filename: my_note.txt, size: 0MB)''),
       TelegramSend (js ''sendDocument'') (js ''123456789'') (Buffer_from_base64 (js ''aGVsbG8=''))
         (js ''Media from WhatsApp:'' @ [0x0A] @ js ''From: 989170000000@c.us'' @ [0x0A] @
          js ''Time: 11/3/2026, 12:00:00 AM'')
         (js ''text/plain'') (js ''my_note.txt''),
       ConsoleWarn ([0x26A0, 0xFE0F] @ js '' Retry 1/3 due to error: timeout''),
       SetTimeout 1000,
       TelegramSend (js ''sendDocument'') (js ''123456789'') (Buffer_from_base64 (js ''aGVsbG8=''))
         (js ''Media from WhatsApp:'' @ [0x0A] @ js ''From: 989170000000@c.us'' @ [0x0A] @
          js ''Time: 11/3/2026, 12:00:00 AM'')
         (js ''text/plain'') (js ''my_note.txt''),
       ConsoleWarn ([0x26A0, 0xFE0F] @ js '' Retry 2/3 due to error: timeout''),
       SetTimeout 1000,
       TelegramSend (js ''sendDocument'') (js ''123456789'') (Buffer_from_base64 (js ''aGVsbG8=''))
         (js ''Media from WhatsApp:'' @ [0x0A] @ js ''From: 989170000000@c.us'' @ [0x0A] @
          js ''Time: 11/3/2026, 12:00:00 AM'')
         (js ''text/plain'') (js ''my_note.txt''),
       ConsoleLog ([0x2705] @ js '' Media sent to Telegram successfully''),
       Reply ([0x2705] @ js '' Media received and sent to Telegram.'')])"
  by (simp add: onMessage_def processMedia_def sendMediaToTelegram_def telegramCall_def
        withRetry_def withRetry_loop.simps retryWarning_def
        exampleConfig_def flakyRuntime_def documentMessage_def smallMedia_def
        WHATSAPP_PHONE_def replacePlus_def SUPPORTED_MEDIA_TYPES_def
        estimateFileSize_closed MAX_FILE_SIZE_MB_def RETRY_ATTEMPTS_def RETRY_DELAY_MS_def
        sanitizeFileName_def replaceUnsafe_def safeChar_def substring0_def
        generateCaption_def getTelegramSendMethod_def
        Number_toString_def digits.simps digit_def js_def u_def Let_def)

end
